theory Spec2Isabelle
  imports Main "HOL-Library.Word"
begin

section \<open>Request descriptors of configs.go: file references and media attachments\<close>

text \<open>
  The development embeds the file-reference types of \<^verbatim>\<open>configs.go\<close>
  (\<^verbatim>\<open>FileBytes\<close>, \<^verbatim>\<open>FileReader\<close>, \<^verbatim>\<open>FilePath\<close>, \<^verbatim>\<open>FileURL\<close>, \<^verbatim>\<open>FileID\<close>,
  \<^verbatim>\<open>fileAttach\<close>), the four functions that prepare a media group for a request
  (\<^verbatim>\<open>prepareInputMediaParam\<close>, \<^verbatim>\<open>prepareInputMediaFile\<close>,
  \<^verbatim>\<open>prepareInputMediaForParams\<close>, \<^verbatim>\<open>prepareInputMediaForFiles\<close>) and the
  descriptors that use them. A Go panic is the outcome \<open>Panics\<close>, a returned
  \<^verbatim>\<open>error\<close> is a value, and the one effect of the code, \<^verbatim>\<open>os.Open\<close>, is a
  function on an explicit \<open>World\<close>. The \<^verbatim>\<open>int\<close> and \<^verbatim>\<open>int64\<close> values of the code are
  HOL integers: the code compares them with zero and prints them, and computes nothing
  with them.
\<close>

subsection \<open>Go values used by the file references\<close>

type_synonym byte = "8 word"

text \<open>An open file, the \<^verbatim>\<open>*os.File\<close> of \<^verbatim>\<open>os.Open\<close>: the name it was opened under and
  its contents.\<close>

datatype os_File = OpenFile string "byte list"

text \<open>\<^verbatim>\<open>(*os.File).Name\<close>: the name of the file as presented to \<^verbatim>\<open>os.Open\<close>.\<close>

fun File_Name :: "os_File \<Rightarrow> string" where
  "File_Name (OpenFile name contents) = name"

text \<open>An \<^verbatim>\<open>io.Reader\<close>: a reader over a byte slice (\<^verbatim>\<open>bytes.NewReader\<close>), an open
  file, or a stream supplied by the caller, identified by a tag.\<close>

datatype Reader =
    bytes_NewReader "byte list"
  | FileHandle os_File
  | CallerStream nat

datatype error =
    PathError string string
  | InvalidIdentifier
  | EncodingFailed

text \<open>The outcome of a Go call: it returns a value or it panics with a message.\<close>

datatype 'a outcome = Returns 'a | Panics string

text \<open>The file system seen by \<^verbatim>\<open>os.Open\<close>: the files that can be opened, with their
  contents, and the log of the paths \<^verbatim>\<open>os.Open\<close> was called on, oldest first.\<close>

record World =
  disk :: "string \<rightharpoonup> byte list"
  open_log :: "string list"

text \<open>\<^verbatim>\<open>os.Open(name)\<close>: a \<^verbatim>\<open>*PathError\<close> when the file cannot be opened, the open
  file otherwise. Every call is logged.\<close>

definition os_Open :: "World \<Rightarrow> string \<Rightarrow> (error + os_File) \<times> World" where
  "os_Open w name =
     ((case disk w name of
         None \<Rightarrow> Inl (PathError ''open'' name)
       | Some contents \<Rightarrow> Inr (OpenFile name contents)),
      w\<lparr>open_log := open_log w @ [name]\<rparr>)"

subsection \<open>Decimal formatting (\<^verbatim>\<open>%d\<close>, \<^verbatim>\<open>strconv.Itoa\<close>)\<close>

definition digit_char :: "nat \<Rightarrow> char" where
  "digit_char d = ''0123456789'' ! d"

fun string_of_nat :: "nat \<Rightarrow> string" where
  "string_of_nat n =
     (if n < 10 then [digit_char n]
      else string_of_nat (n div 10) @ [digit_char (n mod 10)])"

declare string_of_nat.simps [simp del]

definition Itoa :: "int \<Rightarrow> string" where
  "Itoa i = (if i < 0 then ''-'' @ string_of_nat (nat (- i)) else string_of_nat (nat i))"

subsection \<open>\<^verbatim>\<open>RequestFileData\<close> and its six implementations\<close>

datatype RequestFileData =
    FileBytes string "byte list"
  | FileReader string Reader
  | FilePath string
  | FileURL string
  | FileID string
  | fileAttach string

fun NeedsUpload :: "RequestFileData \<Rightarrow> bool" where
  "NeedsUpload (FileBytes name bs) = True"
| "NeedsUpload (FileReader name reader) = True"
| "NeedsUpload (FilePath fp) = True"
| "NeedsUpload (FileURL fu) = False"
| "NeedsUpload (FileID fi) = False"
| "NeedsUpload (fileAttach fa) = False"

text \<open>\<^verbatim>\<open>UploadData() (string, io.Reader, error)\<close>. A nil reader and a nil error are
  \<open>None\<close>. Only \<^verbatim>\<open>FilePath\<close> touches the world.\<close>

fun UploadData ::
  "World \<Rightarrow> RequestFileData \<Rightarrow> (string \<times> Reader option \<times> error option) outcome \<times> World" where
  "UploadData w (FileBytes name bs) = (Returns (name, Some (bytes_NewReader bs), None), w)"
| "UploadData w (FileReader name reader) = (Returns (name, Some reader, None), w)"
| "UploadData w (FilePath fp) =
     (case os_Open w fp of
        (Inl err, w') \<Rightarrow> (Returns ('''', None, Some err), w')
      | (Inr fileHandle, w') \<Rightarrow>
          (Returns (File_Name fileHandle, Some (FileHandle fileHandle), None), w'))"
| "UploadData w (FileURL fu) = (Panics ''FileURL cannot be uploaded'', w)"
| "UploadData w (FileID fi) = (Panics ''FileID cannot be uploaded'', w)"
| "UploadData w (fileAttach fa) = (Panics ''fileAttach cannot be uploaded'', w)"

fun SendData :: "RequestFileData \<Rightarrow> string outcome" where
  "SendData (FileBytes name bs) = Panics ''FileBytes must be uploaded''"
| "SendData (FileReader name reader) = Panics ''FileReader must be uploaded''"
| "SendData (FilePath fp) = Panics ''FilePath must be uploaded''"
| "SendData (FileURL fu) = Returns fu"
| "SendData (FileID fi) = Returns fi"
| "SendData (fileAttach fa) = Returns fa"

text \<open>\<^verbatim>\<open>RequestFile\<close>: a field name and the file data. \<^verbatim>\<open>Data\<close> is an interface
  value, so it can be nil (\<open>None\<close>).\<close>

record RequestFile =
  Name :: string
  Data :: "RequestFileData option"

subsection \<open>Media items\<close>

text \<open>Modelled from the spec: the struct declarations \<^verbatim>\<open>InputMediaPhoto\<close>,
  \<^verbatim>\<open>InputMediaVideo\<close>, \<^verbatim>\<open>InputMediaAudio\<close> and \<^verbatim>\<open>InputMediaDocument\<close> are not in
  \<^verbatim>\<open>configs.go\<close>. Each variant holds a primary file reference \<^verbatim>\<open>Media\<close>; the
  variants other than Photo hold an optional \<^verbatim>\<open>Thumb\<close> (nil is \<open>None\<close>); the
  variant-specific metadata fields (caption, duration, ...) are the parameter
  \<open>'meta\<close>. The argument of the prepare functions is an \<^verbatim>\<open>interface{}\<close>: a value of
  any other dynamic type, and nil, is \<open>OtherValue\<close>.\<close>

datatype ('meta, 'other) InputMedia =
    InputMediaPhoto RequestFileData 'meta
  | InputMediaVideo RequestFileData "RequestFileData option" 'meta
  | InputMediaAudio RequestFileData "RequestFileData option" 'meta
  | InputMediaDocument RequestFileData "RequestFileData option" 'meta
  | OtherValue 'other

text \<open>\<^verbatim>\<open>m.Thumb != nil && m.Thumb.NeedsUpload()\<close>\<close>

fun ThumbNeedsUpload :: "RequestFileData option \<Rightarrow> bool" where
  "ThumbNeedsUpload None = False"
| "ThumbNeedsUpload (Some thumb) = NeedsUpload thumb"

text \<open>\<^verbatim>\<open>prepareInputMediaParam\<close>: the result \<open>None\<close> is the nil it returns for a value
  that is none of the four media types.\<close>

fun prepareInputMediaParam ::
  "('meta, 'other) InputMedia \<Rightarrow> int \<Rightarrow> ('meta, 'other) InputMedia option" where
  "prepareInputMediaParam (InputMediaPhoto media meta) idx =
     Some (InputMediaPhoto
       (if NeedsUpload media then fileAttach (''attach://file-'' @ Itoa idx) else media)
       meta)"
| "prepareInputMediaParam (InputMediaVideo media thumb meta) idx =
     Some (InputMediaVideo
       (if NeedsUpload media then fileAttach (''attach://file-'' @ Itoa idx) else media)
       (if ThumbNeedsUpload thumb
        then Some (fileAttach (''attach://file-'' @ Itoa idx @ ''-thumb'')) else thumb)
       meta)"
| "prepareInputMediaParam (InputMediaAudio media thumb meta) idx =
     Some (InputMediaAudio
       (if NeedsUpload media then fileAttach (''attach://file-'' @ Itoa idx) else media)
       (if ThumbNeedsUpload thumb
        then Some (fileAttach (''attach://file-'' @ Itoa idx @ ''-thumb'')) else thumb)
       meta)"
| "prepareInputMediaParam (InputMediaDocument media thumb meta) idx =
     Some (InputMediaDocument
       (if NeedsUpload media then fileAttach (''attach://file-'' @ Itoa idx) else media)
       (if ThumbNeedsUpload thumb
        then Some (fileAttach (''attach://file-'' @ Itoa idx @ ''-thumb'')) else thumb)
       meta)"
| "prepareInputMediaParam (OtherValue v) idx = None"

text \<open>\<^verbatim>\<open>prepareInputMediaFile\<close>: both appended files are named \<^verbatim>\<open>"file-%d"\<close>.\<close>

fun prepareInputMediaFile :: "('meta, 'other) InputMedia \<Rightarrow> int \<Rightarrow> RequestFile list" where
  "prepareInputMediaFile (InputMediaPhoto media meta) idx =
     (if NeedsUpload media
      then [\<lparr>Name = ''file-'' @ Itoa idx, Data = Some media\<rparr>] else [])"
| "prepareInputMediaFile (InputMediaVideo media thumb meta) idx =
     (if NeedsUpload media
      then [\<lparr>Name = ''file-'' @ Itoa idx, Data = Some media\<rparr>] else [])
     @ (if ThumbNeedsUpload thumb
        then [\<lparr>Name = ''file-'' @ Itoa idx, Data = thumb\<rparr>] else [])"
| "prepareInputMediaFile (InputMediaDocument media thumb meta) idx =
     (if NeedsUpload media
      then [\<lparr>Name = ''file-'' @ Itoa idx, Data = Some media\<rparr>] else [])
     @ (if ThumbNeedsUpload thumb
        then [\<lparr>Name = ''file-'' @ Itoa idx, Data = thumb\<rparr>] else [])"
| "prepareInputMediaFile (InputMediaAudio media thumb meta) idx =
     (if NeedsUpload media
      then [\<lparr>Name = ''file-'' @ Itoa idx, Data = Some media\<rparr>] else [])
     @ (if ThumbNeedsUpload thumb
        then [\<lparr>Name = ''file-'' @ Itoa idx, Data = thumb\<rparr>] else [])"
| "prepareInputMediaFile (OtherValue v) idx = []"

text \<open>\<^verbatim>\<open>prepareInputMediaForParams\<close>: \<open>newMedia\<close> starts as a copy of the input; the
  loop over \<^verbatim>\<open>range inputMedia\<close> stores every non-nil result at its index.\<close>

fun ForParams_loop ::
  "int \<Rightarrow> ('meta, 'other) InputMedia list \<Rightarrow> ('meta, 'other) InputMedia list
     \<Rightarrow> ('meta, 'other) InputMedia list" where
  "ForParams_loop idx [] newMedia = newMedia"
| "ForParams_loop idx (media # rest) newMedia =
     ForParams_loop (idx + 1) rest
       (case prepareInputMediaParam media idx of
          None \<Rightarrow> newMedia
        | Some param \<Rightarrow> newMedia[nat idx := param])"

definition prepareInputMediaForParams ::
  "('meta, 'other) InputMedia list \<Rightarrow> ('meta, 'other) InputMedia list" where
  "prepareInputMediaForParams inputMedia = ForParams_loop 0 inputMedia inputMedia"

text \<open>\<^verbatim>\<open>prepareInputMediaForFiles\<close>: the files of every item, appended in order.\<close>

fun ForFiles_loop ::
  "int \<Rightarrow> ('meta, 'other) InputMedia list \<Rightarrow> RequestFile list \<Rightarrow> RequestFile list" where
  "ForFiles_loop idx [] files = files"
| "ForFiles_loop idx (media # rest) files =
     ForFiles_loop (idx + 1) rest (files @ prepareInputMediaFile media idx)"

definition prepareInputMediaForFiles :: "('meta, 'other) InputMedia list \<Rightarrow> RequestFile list" where
  "prepareInputMediaForFiles inputMedia = ForFiles_loop 0 inputMedia []"

text \<open>Field reads \<^verbatim>\<open>m.Media\<close> and \<^verbatim>\<open>m.Thumb\<close>; \<open>None\<close> where the value has no such
  field (and, for \<^verbatim>\<open>Thumb\<close>, where the field is nil).\<close>

fun Media_of :: "('meta, 'other) InputMedia \<Rightarrow> RequestFileData option" where
  "Media_of (InputMediaPhoto media meta) = Some media"
| "Media_of (InputMediaVideo media thumb meta) = Some media"
| "Media_of (InputMediaAudio media thumb meta) = Some media"
| "Media_of (InputMediaDocument media thumb meta) = Some media"
| "Media_of (OtherValue v) = None"

fun Thumb_of :: "('meta, 'other) InputMedia \<Rightarrow> RequestFileData option" where
  "Thumb_of (InputMediaPhoto media meta) = None"
| "Thumb_of (InputMediaVideo media thumb meta) = thumb"
| "Thumb_of (InputMediaAudio media thumb meta) = thumb"
| "Thumb_of (InputMediaDocument media thumb meta) = thumb"
| "Thumb_of (OtherValue v) = None"

text \<open>The item with its two file fields overwritten and everything else kept.\<close>

fun replace_files ::
  "RequestFileData \<Rightarrow> RequestFileData option \<Rightarrow> ('meta, 'other) InputMedia
     \<Rightarrow> ('meta, 'other) InputMedia" where
  "replace_files md th (InputMediaPhoto media meta) = InputMediaPhoto md meta"
| "replace_files md th (InputMediaVideo media thumb meta) = InputMediaVideo md th meta"
| "replace_files md th (InputMediaAudio media thumb meta) = InputMediaAudio md th meta"
| "replace_files md th (InputMediaDocument media thumb meta) = InputMediaDocument md th meta"
| "replace_files md th (OtherValue v) = OtherValue v"

text \<open>Whether one of the two upload tests of the prepare functions succeeds on the item.\<close>

fun needs_rewrite :: "('meta, 'other) InputMedia \<Rightarrow> bool" where
  "needs_rewrite (InputMediaPhoto media meta) = NeedsUpload media"
| "needs_rewrite (InputMediaVideo media thumb meta) = (NeedsUpload media \<or> ThumbNeedsUpload thumb)"
| "needs_rewrite (InputMediaAudio media thumb meta) = (NeedsUpload media \<or> ThumbNeedsUpload thumb)"
| "needs_rewrite (InputMediaDocument media thumb meta) =
     (NeedsUpload media \<or> ThumbNeedsUpload thumb)"
| "needs_rewrite (OtherValue v) = False"

text \<open>The value the loop of \<^verbatim>\<open>prepareInputMediaForParams\<close> leaves at an index: the
  result of \<^verbatim>\<open>prepareInputMediaParam\<close>, or the copied input where that is nil.\<close>

definition rewritten :: "('meta, 'other) InputMedia \<Rightarrow> int \<Rightarrow> ('meta, 'other) InputMedia" where
  "rewritten media idx =
     (case prepareInputMediaParam media idx of None \<Rightarrow> media | Some param \<Rightarrow> param)"

subsection \<open>\<^verbatim>\<open>Params\<close>\<close>

text \<open>\<^verbatim>\<open>Params\<close> is a \<^verbatim>\<open>map[string]string\<close>.\<close>

type_synonym Params = "string \<rightharpoonup> string"

text \<open>Modelled from the spec: \<^verbatim>\<open>AddNonZero\<close> (the methods of \<^verbatim>\<open>Params\<close> are not in
  \<^verbatim>\<open>configs.go\<close>) writes the decimal string of an \<^verbatim>\<open>int\<close> iff it is not zero.\<close>

definition AddNonZero :: "string \<Rightarrow> int \<Rightarrow> Params \<Rightarrow> Params" where
  "AddNonZero key v p = (if v \<noteq> 0 then p(key \<mapsto> Itoa v) else p)"

text \<open>Modelled from the spec: \<^verbatim>\<open>AddNonZero64\<close> (not in \<^verbatim>\<open>configs.go\<close>) writes the
  decimal string of an \<^verbatim>\<open>int64\<close> iff it is not zero.\<close>

definition AddNonZero64 :: "string \<Rightarrow> int \<Rightarrow> Params \<Rightarrow> Params" where
  "AddNonZero64 key v p = (if v \<noteq> 0 then p(key \<mapsto> Itoa v) else p)"

text \<open>Modelled from the spec: \<^verbatim>\<open>AddNonEmpty\<close> (not in \<^verbatim>\<open>configs.go\<close>) writes the
  string iff it is not empty.\<close>

definition AddNonEmpty :: "string \<Rightarrow> string \<Rightarrow> Params \<Rightarrow> Params" where
  "AddNonEmpty key v p = (if v \<noteq> [] then p(key \<mapsto> v) else p)"

text \<open>Modelled from the spec: \<^verbatim>\<open>AddBool\<close> (not in \<^verbatim>\<open>configs.go\<close>) writes the literal
  of the value iff the value is true.\<close>

definition AddBool :: "string \<Rightarrow> bool \<Rightarrow> Params \<Rightarrow> Params" where
  "AddBool key v p = (if v then p(key \<mapsto> ''true'') else p)"

text \<open>A candidate of \<^verbatim>\<open>AddFirstValid\<close>: a numeric id or a textual handle.\<close>

datatype candidate = Number int | Text string

text \<open>Modelled from the spec: \<^verbatim>\<open>AddFirstValid\<close> (not in \<^verbatim>\<open>configs.go\<close>) tries the
  candidates from left to right, by the zero-value test of \<^verbatim>\<open>AddNonZero\<close> and
  \<^verbatim>\<open>AddNonEmpty\<close>, writes the first that qualifies and fails with
  \<open>InvalidIdentifier\<close> when none does.\<close>

fun AddFirstValid :: "string \<Rightarrow> candidate list \<Rightarrow> Params \<Rightarrow> Params \<times> error option" where
  "AddFirstValid key [] p = (p, Some InvalidIdentifier)"
| "AddFirstValid key (Number v # args) p =
     (if v \<noteq> 0 then (p(key \<mapsto> Itoa v), None) else AddFirstValid key args p)"
| "AddFirstValid key (Text v # args) p =
     (if v \<noteq> [] then (p(key \<mapsto> v), None) else AddFirstValid key args p)"

text \<open>Modelled from the spec: \<^verbatim>\<open>AddInterface\<close> (not in \<^verbatim>\<open>configs.go\<close>) JSON-encodes
  the value and writes the result iff the value is not nil, and fails with
  \<open>EncodingFailed\<close> when the value cannot be serialized. The encoder
  (\<^verbatim>\<open>json.Marshal\<close>) is the parameter \<open>marshal\<close>, \<open>None\<close> where it fails.\<close>

definition AddInterface ::
  "('v \<Rightarrow> string option) \<Rightarrow> string \<Rightarrow> 'v option \<Rightarrow> Params \<Rightarrow> Params \<times> error option" where
  "AddInterface marshal key v p =
     (case v of
        None \<Rightarrow> (p, None)
      | Some x \<Rightarrow>
          (case marshal x of
             None \<Rightarrow> (p, Some EncodingFailed)
           | Some b \<Rightarrow> (p(key \<mapsto> b), None)))"

subsection \<open>Descriptors\<close>

record 'markup BaseChat =
  ChatID :: int
  ChannelUsername :: string
  ProtectContent :: bool
  ReplyToMessageID :: int
  ReplyMarkup :: "'markup option"
  DisableNotification :: bool
  AllowSendingWithoutReply :: bool

record 'markup BaseFile = "'markup BaseChat" +
  File :: "RequestFileData option"

record ('markup, 'entity) PhotoConfig = "'markup BaseFile" +
  Thumb :: "RequestFileData option"
  Caption :: string
  ParseMode :: string
  CaptionEntities :: "'entity list"

text \<open>\<^verbatim>\<open>PhotoConfig.files\<close>\<close>

definition PhotoConfig_files :: "('markup, 'entity) PhotoConfig \<Rightarrow> RequestFile list" where
  "PhotoConfig_files config =
     [\<lparr>Name = ''photo'', Data = File config\<rparr>]
     @ (case Thumb config of
          None \<Rightarrow> []
        | Some thumb \<Rightarrow> [\<lparr>Name = ''thumb'', Data = Some thumb\<rparr>])"

text \<open>\<^verbatim>\<open>WebhookConfig\<close>: \<^verbatim>\<open>URL\<close> is a \<^verbatim>\<open>*url.URL\<close>, kept as the string it prints.\<close>

record WebhookConfig =
  URL :: "string option"
  Certificate :: "RequestFileData option"
  IPAddress :: string
  MaxConnections :: int
  AllowedUpdates :: "string list"
  DropPendingUpdates :: bool

text \<open>\<^verbatim>\<open>WebhookConfig.files\<close>: the nil slice it returns without a certificate is the
  empty list.\<close>

definition WebhookConfig_files :: "WebhookConfig \<Rightarrow> RequestFile list" where
  "WebhookConfig_files config =
     (case Certificate config of
        Some certificate \<Rightarrow> [\<lparr>Name = ''certificate'', Data = Some certificate\<rparr>]
      | None \<Rightarrow> [])"

record 'markup BaseEdit =
  ChatID :: int
  ChannelUsername :: string
  MessageID :: int
  InlineMessageID :: string
  ReplyMarkup :: "'markup option"

text \<open>\<^verbatim>\<open>BaseEdit.Params\<close>: the error of \<^verbatim>\<open>AddFirstValid\<close> is dropped, the error of
  \<^verbatim>\<open>AddInterface\<close> is returned.\<close>

definition BaseEdit_Params ::
  "('markup \<Rightarrow> string option) \<Rightarrow> ('markup, 'more) BaseEdit_scheme \<Rightarrow> Params \<times> error option" where
  "BaseEdit_Params marshal edit =
     (let params = Map.empty;
          params =
            (if BaseEdit.InlineMessageID edit \<noteq> []
             then params(''inline_message_id'' \<mapsto> BaseEdit.InlineMessageID edit)
             else AddNonZero ''message_id'' (BaseEdit.MessageID edit)
                    (fst (AddFirstValid ''chat_id''
                            [Number (BaseEdit.ChatID edit), Text (BaseEdit.ChannelUsername edit)]
                            params)))
      in AddInterface marshal ''reply_markup'' (BaseEdit.ReplyMarkup edit) params)"

record ('markup, 'meta, 'other) EditMessageMediaConfig = "'markup BaseEdit" +
  Media :: "('meta, 'other) InputMedia"

text \<open>\<^verbatim>\<open>EditMessageMediaConfig.Params\<close> and \<^verbatim>\<open>EditMessageMediaConfig.files\<close>\<close>

definition EditMessageMediaConfig_Params ::
  "('markup \<Rightarrow> string option) \<Rightarrow> (('meta, 'other) InputMedia \<Rightarrow> string option)
     \<Rightarrow> ('markup, 'meta, 'other) EditMessageMediaConfig \<Rightarrow> Params \<times> error option" where
  "EditMessageMediaConfig_Params marshal_markup marshal_media config =
     (case BaseEdit_Params marshal_markup config of
        (params, Some err) \<Rightarrow> (params, Some err)
      | (params, None) \<Rightarrow>
          AddInterface marshal_media ''media''
            (prepareInputMediaParam (Media config) 0) params)"

definition EditMessageMediaConfig_files ::
  "('markup, 'meta, 'other) EditMessageMediaConfig \<Rightarrow> RequestFile list" where
  "EditMessageMediaConfig_files config = prepareInputMediaFile (Media config) 0"

record ('meta, 'other) MediaGroupConfig =
  ChatID :: int
  ChannelUsername :: string
  Media :: "('meta, 'other) InputMedia list"
  DisableNotification :: bool
  ReplyToMessageID :: int

text \<open>\<^verbatim>\<open>MediaGroupConfig.files\<close>\<close>

definition MediaGroupConfig_files :: "('meta, 'other) MediaGroupConfig \<Rightarrow> RequestFile list" where
  "MediaGroupConfig_files config = prepareInputMediaForFiles (MediaGroupConfig.Media config)"

record SetGameScoreConfig =
  UserID :: int
  Score :: int
  Force :: bool
  DisableEditMessage :: bool
  ChatID :: int
  ChannelUsername :: string
  MessageID :: int
  InlineMessageID :: string

text \<open>\<^verbatim>\<open>SetGameScoreConfig.Params\<close>: the error of \<^verbatim>\<open>AddFirstValid\<close> is dropped and
  the returned error is nil.\<close>

definition SetGameScoreConfig_Params :: "SetGameScoreConfig \<Rightarrow> Params \<times> error option" where
  "SetGameScoreConfig_Params config =
     (let params = Map.empty;
          params = AddNonZero64 ''user_id'' (UserID config) params;
          params = AddNonZero ''scrore'' (Score config) params;
          params = AddBool ''disable_edit_message'' (DisableEditMessage config) params;
          params =
            (if SetGameScoreConfig.InlineMessageID config \<noteq> []
             then params(''inline_message_id'' \<mapsto> SetGameScoreConfig.InlineMessageID config)
             else AddNonZero ''message_id'' (SetGameScoreConfig.MessageID config)
                    (fst (AddFirstValid ''chat_id''
                            [Number (SetGameScoreConfig.ChatID config),
                             Text (SetGameScoreConfig.ChannelUsername config)]
                            params)))
      in (params, None))"

section \<open>Properties\<close>

subsection \<open>The two loops, index by index\<close>

lemma length_ForParams_loop: "length (ForParams_loop idx ms newMedia) = length newMedia"
  by (induction ms arbitrary: idx newMedia) (auto split: option.splits)

lemma nth_ForParams_loop:
  "0 \<le> idx \<Longrightarrow> j < length newMedia \<Longrightarrow>
   ForParams_loop idx ms newMedia ! j =
     (if nat idx \<le> j \<and> j < nat idx + length ms
      then (case prepareInputMediaParam (ms ! (j - nat idx)) (int j) of
              None \<Rightarrow> newMedia ! j | Some param \<Rightarrow> param)
      else newMedia ! j)"
proof (induction ms arbitrary: idx newMedia)
  case Nil
  then show ?case by auto
next
  case (Cons media rest)
  let ?nm = "case prepareInputMediaParam media idx of None \<Rightarrow> newMedia | Some param \<Rightarrow> newMedia[nat idx := param]"
  have len: "j < length ?nm" using Cons.prems by (simp split: option.splits)
  have idx': "0 \<le> idx + 1" using Cons.prems by simp
  have nat': "nat (idx + 1) = Suc (nat idx)" using Cons.prems by simp
  have step: "ForParams_loop idx (media # rest) newMedia ! j =
     (if nat (idx + 1) \<le> j \<and> j < nat (idx + 1) + length rest
      then (case prepareInputMediaParam (rest ! (j - nat (idx + 1))) (int j) of
              None \<Rightarrow> ?nm ! j | Some param \<Rightarrow> param)
      else ?nm ! j)"
    using Cons.IH [OF idx' len] by simp
  have at_idx: "?nm ! j =
     (case prepareInputMediaParam media idx of None \<Rightarrow> newMedia ! j | Some param \<Rightarrow> param)"
    if "j = nat idx"
    using that Cons.prems by (simp split: option.splits)
  have off_idx: "?nm ! j = newMedia ! j" if "j \<noteq> nat idx"
    using that by (simp split: option.splits)
  consider "j < nat idx" | "j = nat idx" | "nat idx < j" by linarith
  then show ?case
  proof cases
    case 1
    then have o: "?nm ! j = newMedia ! j" using off_idx by simp
    from 1 show ?thesis unfolding step o by (simp add: nat')
  next
    case 2
    then have "int j = idx" using Cons.prems by simp
    with 2 show ?thesis unfolding step at_idx [OF 2] by (simp add: nat')
  next
    case 3
    then obtain d where d: "j - nat idx = Suc d" "j - Suc (nat idx) = d"
      by (metis Suc_diff_Suc diff_Suc_eq_diff_pred Suc_pred zero_less_diff)
    from 3 have o: "?nm ! j = newMedia ! j" using off_idx by simp
    from 3 show ?thesis unfolding step o using d by (auto simp add: nat')
  qed
qed

lemma length_prepareInputMediaForParams:
  "length (prepareInputMediaForParams ms) = length ms"
  by (simp add: prepareInputMediaForParams_def length_ForParams_loop)

lemma nth_prepareInputMediaForParams:
  "i < length ms \<Longrightarrow> prepareInputMediaForParams ms ! i = rewritten (ms ! i) (int i)"
  by (simp add: prepareInputMediaForParams_def nth_ForParams_loop rewritten_def)

lemma set_ForFiles_loop:
  "set (ForFiles_loop idx ms files) =
     set files \<union> (\<Union>k \<in> {..<length ms}. set (prepareInputMediaFile (ms ! k) (idx + int k)))"
proof (induction ms arbitrary: idx files)
  case Nil
  then show ?case by simp
next
  case (Cons media rest)
  have "(\<Union>k \<in> {..<length (media # rest)}. set (prepareInputMediaFile ((media # rest) ! k) (idx + int k)))
      = set (prepareInputMediaFile media idx)
        \<union> (\<Union>k \<in> {..<length rest}. set (prepareInputMediaFile (rest ! k) (idx + 1 + int k)))"
    (is "?L = ?R")
  proof
    show "?L \<subseteq> ?R"
    proof
      fix f assume "f \<in> ?L"
      then obtain k where k: "k < Suc (length rest)" "f \<in> set (prepareInputMediaFile ((media # rest) ! k) (idx + int k))"
        by auto
      show "f \<in> ?R"
      proof (cases k)
        case 0
        with k show ?thesis by simp
      next
        case (Suc k')
        with k have "k' < length rest" "f \<in> set (prepareInputMediaFile (rest ! k') (idx + 1 + int k'))"
          by (simp_all add: algebra_simps)
        then show ?thesis by blast
      qed
    qed
    show "?R \<subseteq> ?L"
    proof
      fix f assume "f \<in> ?R"
      then consider "f \<in> set (prepareInputMediaFile media idx)"
        | k where "k < length rest" "f \<in> set (prepareInputMediaFile (rest ! k) (idx + 1 + int k))"
        by auto
      then show "f \<in> ?L"
      proof cases
        case 1
        then have "f \<in> set (prepareInputMediaFile ((media # rest) ! 0) (idx + int 0))" by simp
        then show ?thesis by (metis (no_types, lifting) UN_I lessThan_iff length_Cons zero_less_Suc)
      next
        case 2
        then have "Suc k < length (media # rest)"
          "f \<in> set (prepareInputMediaFile ((media # rest) ! Suc k) (idx + int (Suc k)))"
          by (simp_all add: algebra_simps)
        then show ?thesis by (metis (no_types, lifting) UN_I lessThan_iff)
      qed
    qed
  qed
  then show ?case by (simp add: Cons.IH Un_assoc)
qed

lemma set_prepareInputMediaForFiles:
  "set (prepareInputMediaForFiles ms) =
     (\<Union>k \<in> {..<length ms}. set (prepareInputMediaFile (ms ! k) (int k)))"
  by (simp add: prepareInputMediaForFiles_def set_ForFiles_loop)


lemma prepareInputMediaFile_Data:
  "f \<in> set (prepareInputMediaFile item idx) \<Longrightarrow> \<exists>d. Data f = Some d \<and> NeedsUpload d"
  by (cases item; cases "Thumb_of item") (auto split: if_splits)

lemma media_file_first:
  "Media_of item = Some media \<Longrightarrow> NeedsUpload media \<Longrightarrow>
   \<exists>rest. prepareInputMediaFile item idx = \<lparr>Name = ''file-'' @ Itoa idx, Data = Some media\<rparr> # rest"
  by (cases item) auto

lemma media_param_token:
  "Media_of item = Some media \<Longrightarrow> NeedsUpload media \<Longrightarrow>
   Media_of (rewritten item idx) = Some (fileAttach (''attach://file-'' @ Itoa idx))"
  by (cases item) (auto simp: rewritten_def)

lemma media_param_kept:
  "Media_of item = Some media \<Longrightarrow> \<not> NeedsUpload media \<Longrightarrow>
   Media_of (rewritten item idx) = Some media"
  by (cases item) (auto simp: rewritten_def)

lemma rewritten_replace_files:
  "\<exists>md th. rewritten item idx = replace_files md th item"
  by (cases item) (auto simp: rewritten_def)

lemma rewritten_identity:
  "\<not> needs_rewrite item \<Longrightarrow> rewritten item idx = item"
  by (cases item) (auto simp: rewritten_def)

lemma Itoa_0: "Itoa 0 = ''0''"
  by code_simp

lemma Itoa_1: "Itoa 1 = ''1''"
  by code_simp

subsection \<open>Primary media\<close>

text \<open>
  C3. In a media group, an item at index \<open>i\<close> whose primary media needs upload gets,
  in the rewritten sequence, the media field \<^verbatim>\<open>fileAttach("attach://file-{i}")\<close>; the
  files of that item start with \<^verbatim>\<open>RequestFile{Name: "file-{i}", Data: original media}\<close>,
  and that file is in the list of \<^verbatim>\<open>prepareInputMediaForFiles\<close>. For the one-item
  sequence of a Photo needing upload the file list is exactly the file named
  \<^verbatim>\<open>"file-0"\<close> and the rewritten item carries \<^verbatim>\<open>"attach://file-0"\<close>.
\<close>

theorem media_upload_token_and_file:
  assumes "i < length ms" and "Media_of (ms ! i) = Some media" and "NeedsUpload media"
  shows "Media_of (prepareInputMediaForParams ms ! i)
           = Some (fileAttach (''attach://file-'' @ Itoa (int i)))
       \<and> (\<exists>rest. prepareInputMediaFile (ms ! i) (int i)
                   = \<lparr>Name = ''file-'' @ Itoa (int i), Data = Some media\<rparr> # rest)
       \<and> \<lparr>Name = ''file-'' @ Itoa (int i), Data = Some media\<rparr>
             \<in> set (prepareInputMediaForFiles ms)
       \<and> (\<forall>meta. ms = [InputMediaPhoto media meta] \<longrightarrow>
             prepareInputMediaForFiles ms = [\<lparr>Name = ''file-0'', Data = Some media\<rparr>]
           \<and> prepareInputMediaForParams ms
               = [InputMediaPhoto (fileAttach ''attach://file-0'') meta])"
proof -
  have a: "Media_of (prepareInputMediaForParams ms ! i)
           = Some (fileAttach (''attach://file-'' @ Itoa (int i)))"
    using assms by (simp add: nth_prepareInputMediaForParams media_param_token)
  obtain rest where b: "prepareInputMediaFile (ms ! i) (int i)
                   = \<lparr>Name = ''file-'' @ Itoa (int i), Data = Some media\<rparr> # rest"
    using media_file_first [OF assms(2,3)] by blast
  have c: "\<lparr>Name = ''file-'' @ Itoa (int i), Data = Some media\<rparr>
             \<in> set (prepareInputMediaForFiles ms)"
    unfolding set_prepareInputMediaForFiles using assms(1) b by force
  have d: "\<forall>meta. ms = [InputMediaPhoto media meta] \<longrightarrow>
             prepareInputMediaForFiles ms = [\<lparr>Name = ''file-0'', Data = Some media\<rparr>]
           \<and> prepareInputMediaForParams ms
               = [InputMediaPhoto (fileAttach ''attach://file-0'') meta]"
    using assms(3)
    by (simp add: prepareInputMediaForFiles_def prepareInputMediaForParams_def Itoa_0)
  from a b c d show ?thesis by blast
qed

theorem media_upload_token_and_file_witness:
  "(1::nat) < length [InputMediaPhoto (FileID ''x'') (),
                      InputMediaVideo (FileBytes ''v'' [1, 2]) None () :: (unit, unit) InputMedia]
   \<and> Media_of ([InputMediaPhoto (FileID ''x'') (),
                 InputMediaVideo (FileBytes ''v'' [1, 2]) None () :: (unit, unit) InputMedia] ! 1)
       = Some (FileBytes ''v'' [1, 2])
   \<and> NeedsUpload (FileBytes ''v'' [1, 2])
   \<and> Media_of (prepareInputMediaForParams
        [InputMediaPhoto (FileID ''x'') (),
         InputMediaVideo (FileBytes ''v'' [1, 2]) None () :: (unit, unit) InputMedia] ! 1)
       = Some (fileAttach ''attach://file-1'')
   \<and> \<lparr>Name = ''file-1'', Data = Some (FileBytes ''v'' [1, 2])\<rparr>
       \<in> set (prepareInputMediaForFiles
            [InputMediaPhoto (FileID ''x'') (),
             InputMediaVideo (FileBytes ''v'' [1, 2]) None () :: (unit, unit) InputMedia])"
  using media_upload_token_and_file
    [of 1 "[InputMediaPhoto (FileID ''x'') (),
            InputMediaVideo (FileBytes ''v'' [1, 2]) None () :: (unit, unit) InputMedia]"
        "FileBytes ''v'' [1, 2]"]
  by (simp add: Itoa_1)

text \<open>
  C4. In a media group, an item at index \<open>i\<close> whose primary media does not need
  upload keeps its media field in the rewritten sequence; the only file its index can
  contribute is the one of its thumbnail, and no file of the whole list carries the
  media reference; when the thumbnail does not need upload either, the item is returned
  as it is and contributes no file. The reference is a \<^verbatim>\<open>FileID\<close>, a \<^verbatim>\<open>FileURL\<close> or a
  \<^verbatim>\<open>fileAttach\<close>, and \<^verbatim>\<open>SendData\<close> returns the string it was made from.
\<close>

theorem media_without_upload_kept:
  assumes "i < length ms" and "Media_of (ms ! i) = Some media" and "\<not> NeedsUpload media"
  shows "Media_of (prepareInputMediaForParams ms ! i) = Some media
       \<and> (\<forall>f \<in> set (prepareInputMediaFile (ms ! i) (int i)). Data f = Thumb_of (ms ! i))
       \<and> (\<forall>f \<in> set (prepareInputMediaForFiles ms). Data f \<noteq> Some media)
       \<and> (\<not> ThumbNeedsUpload (Thumb_of (ms ! i)) \<longrightarrow>
            prepareInputMediaForParams ms ! i = ms ! i
          \<and> prepareInputMediaFile (ms ! i) (int i) = [])
       \<and> (\<exists>s. SendData media = Returns s
              \<and> (media = FileID s \<or> media = FileURL s \<or> media = fileAttach s))"
proof -
  have a: "Media_of (prepareInputMediaForParams ms ! i) = Some media"
    using assms by (simp add: nth_prepareInputMediaForParams media_param_kept)
  have b: "\<forall>f \<in> set (prepareInputMediaFile (ms ! i) (int i)). Data f = Thumb_of (ms ! i)"
    using assms(2,3) by (cases "ms ! i") auto
  have c: "\<forall>f \<in> set (prepareInputMediaForFiles ms). Data f \<noteq> Some media"
  proof
    fix f assume "f \<in> set (prepareInputMediaForFiles ms)"
    then obtain k where "f \<in> set (prepareInputMediaFile (ms ! k) (int k))"
      unfolding set_prepareInputMediaForFiles by blast
    then obtain d where "Data f = Some d" "NeedsUpload d"
      using prepareInputMediaFile_Data by blast
    with assms(3) show "Data f \<noteq> Some media" by auto
  qed
  have d: "\<not> ThumbNeedsUpload (Thumb_of (ms ! i)) \<longrightarrow>
            prepareInputMediaForParams ms ! i = ms ! i
          \<and> prepareInputMediaFile (ms ! i) (int i) = []"
  proof
    assume t: "\<not> ThumbNeedsUpload (Thumb_of (ms ! i))"
    with assms(2,3) have "\<not> needs_rewrite (ms ! i)" by (cases "ms ! i") auto
    then have "prepareInputMediaForParams ms ! i = ms ! i"
      using assms(1) by (simp add: nth_prepareInputMediaForParams rewritten_identity)
    moreover have "prepareInputMediaFile (ms ! i) (int i) = []"
      using assms(2,3) t by (cases "ms ! i") auto
    ultimately show "prepareInputMediaForParams ms ! i = ms ! i
          \<and> prepareInputMediaFile (ms ! i) (int i) = []" by simp
  qed
  have e: "\<exists>s. SendData media = Returns s
              \<and> (media = FileID s \<or> media = FileURL s \<or> media = fileAttach s)"
    using assms(3) by (cases media) auto
  from a b c d e show ?thesis by blast
qed

theorem media_without_upload_kept_witness:
  "(0::nat) < length [InputMediaAudio (FileID ''AgAD'') None () :: (unit, unit) InputMedia]
   \<and> Media_of ([InputMediaAudio (FileID ''AgAD'') None () :: (unit, unit) InputMedia] ! 0)
       = Some (FileID ''AgAD'')
   \<and> \<not> NeedsUpload (FileID ''AgAD'')
   \<and> Media_of (prepareInputMediaForParams
         [InputMediaAudio (FileID ''AgAD'') None () :: (unit, unit) InputMedia] ! 0)
       = Some (FileID ''AgAD'')
   \<and> prepareInputMediaForFiles
         [InputMediaAudio (FileID ''AgAD'') None () :: (unit, unit) InputMedia] = []
   \<and> SendData (FileID ''AgAD'') = Returns ''AgAD''"
  using media_without_upload_kept [of 0 "[InputMediaAudio (FileID ''AgAD'') None () :: (unit, unit) InputMedia]"
               "FileID ''AgAD''"]
  by (simp add: prepareInputMediaForFiles_def)

subsection \<open>Thumbnails\<close>

text \<open>
  C1. Evaluation of the media group of one Video whose media and thumbnail both need
  upload. The rewritten item carries the tokens \<^verbatim>\<open>"attach://file-0"\<close> and
  \<^verbatim>\<open>"attach://file-0-thumb"\<close>, while the two files are both named \<^verbatim>\<open>"file-0"\<close>: the
  names are not distinct and no file is named \<^verbatim>\<open>"file-0-thumb"\<close>.
\<close>

theorem media_group_part_names_collide:
  "map Name (prepareInputMediaForFiles
      [InputMediaVideo (FileBytes ''v'' [1]) (Some (FileBytes ''t'' [2])) () :: (unit, unit) InputMedia])
     = [''file-0'', ''file-0'']
   \<and> prepareInputMediaForParams
      [InputMediaVideo (FileBytes ''v'' [1]) (Some (FileBytes ''t'' [2])) () :: (unit, unit) InputMedia]
     = [InputMediaVideo (fileAttach ''attach://file-0'') (Some (fileAttach ''attach://file-0-thumb'')) ()]
   \<and> \<not> distinct (map Name (prepareInputMediaForFiles
      [InputMediaVideo (FileBytes ''v'' [1]) (Some (FileBytes ''t'' [2])) () :: (unit, unit) InputMedia]))
   \<and> ''file-0-thumb'' \<notin> set (map Name (prepareInputMediaForFiles
      [InputMediaVideo (FileBytes ''v'' [1]) (Some (FileBytes ''t'' [2])) () :: (unit, unit) InputMedia]))"
  by (simp add: prepareInputMediaForFiles_def prepareInputMediaForParams_def Itoa_0)

text \<open>
  C2. Evaluation of a media group whose second item (index 1) is a Document with a
  hosted media and a thumbnail needing upload. The thumbnail is replaced by the token
  \<^verbatim>\<open>"attach://file-1-thumb"\<close>, and the file carrying the original thumbnail is named
  \<^verbatim>\<open>"file-1"\<close>, without the \<^verbatim>\<open>-thumb\<close> suffix.
\<close>

theorem thumb_part_named_without_suffix:
  "prepareInputMediaForFiles
      [InputMediaPhoto (FileID ''p'') (),
       InputMediaDocument (FileID ''d'') (Some (FilePath ''t.jpg'')) () :: (unit, unit) InputMedia]
     = [\<lparr>Name = ''file-1'', Data = Some (FilePath ''t.jpg'')\<rparr>]
   \<and> prepareInputMediaForParams
      [InputMediaPhoto (FileID ''p'') (),
       InputMediaDocument (FileID ''d'') (Some (FilePath ''t.jpg'')) () :: (unit, unit) InputMedia]
     = [InputMediaPhoto (FileID ''p'') (),
        InputMediaDocument (FileID ''d'') (Some (fileAttach ''attach://file-1-thumb'')) ()]"
  by (simp add: prepareInputMediaForFiles_def prepareInputMediaForParams_def Itoa_0 Itoa_1)

subsection \<open>File references\<close>

text \<open>
  C5. For every file reference exactly one accessor is valid. When \<^verbatim>\<open>NeedsUpload\<close> is
  true, \<^verbatim>\<open>UploadData\<close> returns to its caller (with a reader and a nil error, except for
  a \<^verbatim>\<open>FilePath\<close> that cannot be opened, where the returned triple carries the error of
  \<^verbatim>\<open>os.Open\<close>) and \<^verbatim>\<open>SendData\<close> panics. When \<^verbatim>\<open>NeedsUpload\<close> is false, \<^verbatim>\<open>SendData\<close>
  returns a string and \<^verbatim>\<open>UploadData\<close> panics. So a caller that picks the accessor by
  \<^verbatim>\<open>NeedsUpload\<close> never reaches a panic.
\<close>

theorem accessor_matches_NeedsUpload:
  "(NeedsUpload d \<longrightarrow>
      (\<exists>name reader err. fst (UploadData w d) = Returns (name, reader, err))
    \<and> ((\<exists>name reader. fst (UploadData w d) = Returns (name, Some reader, None))
       \<or> (\<exists>fp. d = FilePath fp \<and> disk w fp = None))
    \<and> (\<exists>msg. SendData d = Panics msg))
   \<and> (\<not> NeedsUpload d \<longrightarrow>
      (\<exists>s. SendData d = Returns s)
    \<and> (\<exists>msg. fst (UploadData w d) = Panics msg))"
  by (cases d) (auto simp: os_Open_def split: option.splits)

theorem accessor_matches_NeedsUpload_witness:
  "NeedsUpload (FileBytes ''a.png'' [7])
   \<and> (\<exists>name reader err. fst (UploadData \<lparr>disk = Map.empty, open_log = []\<rparr> (FileBytes ''a.png'' [7]))
         = Returns (name, reader, err))
   \<and> (\<exists>msg. SendData (FileBytes ''a.png'' [7]) = Panics msg)
   \<and> \<not> NeedsUpload (FileURL ''https://example.org/a.png'')
   \<and> (\<exists>s. SendData (FileURL ''https://example.org/a.png'') = Returns s)
   \<and> (\<exists>msg. fst (UploadData \<lparr>disk = Map.empty, open_log = []\<rparr> (FileURL ''https://example.org/a.png''))
         = Panics msg)"
  using accessor_matches_NeedsUpload [of "FileBytes ''a.png'' [7]" "\<lparr>disk = Map.empty, open_log = []\<rparr>"]
        accessor_matches_NeedsUpload [of "FileURL ''https://example.org/a.png''" "\<lparr>disk = Map.empty, open_log = []\<rparr>"]
  by simp

text \<open>
  C6. \<^verbatim>\<open>UploadData\<close> on a \<^verbatim>\<open>FilePath\<close> is the call of \<^verbatim>\<open>os.Open\<close>: it appends the path to
  the log of opened paths, returns the empty name, a nil reader and the error exactly
  when the path cannot be opened, and the name and the handle of the opened file
  otherwise. No other file reference changes the world in \<^verbatim>\<open>UploadData\<close>, and
  \<^verbatim>\<open>NeedsUpload\<close> and \<^verbatim>\<open>SendData\<close> do not take the world at all. \<^verbatim>\<open>SendData\<close> on a
  \<^verbatim>\<open>FileURL\<close> or a \<^verbatim>\<open>FileID\<close> returns the underlying string.
\<close>

theorem FilePath_opens_on_UploadData:
  "UploadData w (FilePath fp) =
     ((case disk w fp of
         None \<Rightarrow> Returns ('''', None, Some (PathError ''open'' fp))
       | Some contents \<Rightarrow> Returns (fp, Some (FileHandle (OpenFile fp contents)), None)),
      w\<lparr>open_log := open_log w @ [fp]\<rparr>)
   \<and> ((\<exists>name reader err. fst (UploadData w (FilePath fp)) = Returns (name, reader, Some err))
        \<longleftrightarrow> disk w fp = None)
   \<and> ((\<forall>fp'. d \<noteq> FilePath fp') \<longrightarrow> snd (UploadData w d) = w)
   \<and> SendData (FileURL fu) = Returns fu
   \<and> SendData (FileID fi) = Returns fi"
  by (cases d) (auto simp: os_Open_def split: option.splits)

theorem FilePath_opens_on_UploadData_witness:
  "(\<forall>fp'. FileBytes ''n'' [] \<noteq> FilePath fp')
   \<and> snd (UploadData \<lparr>disk = [''a.txt'' \<mapsto> [104, 105]], open_log = []\<rparr> (FileBytes ''n'' []))
       = \<lparr>disk = [''a.txt'' \<mapsto> [104, 105]], open_log = []\<rparr>
   \<and> UploadData \<lparr>disk = [''a.txt'' \<mapsto> [104, 105]], open_log = []\<rparr> (FilePath ''a.txt'')
       = (Returns (''a.txt'', Some (FileHandle (OpenFile ''a.txt'' [104, 105])), None),
          \<lparr>disk = [''a.txt'' \<mapsto> [104, 105]], open_log = [''a.txt'']\<rparr>)
   \<and> UploadData \<lparr>disk = [''a.txt'' \<mapsto> [104, 105]], open_log = []\<rparr> (FilePath ''b.txt'')
       = (Returns ('''', None, Some (PathError ''open'' ''b.txt'')),
          \<lparr>disk = [''a.txt'' \<mapsto> [104, 105]], open_log = [''b.txt'']\<rparr>)"
  using FilePath_opens_on_UploadData [of "\<lparr>disk = [''a.txt'' \<mapsto> [104, 105]], open_log = []\<rparr>" "''a.txt''" "FileBytes ''n'' []"]
        FilePath_opens_on_UploadData [of "\<lparr>disk = [''a.txt'' \<mapsto> [104, 105]], open_log = []\<rparr>" "''b.txt''" "FileBytes ''n'' []"]
  by simp

subsection \<open>The data of a \<^verbatim>\<open>RequestFile\<close>\<close>

lemma prepareInputMediaForFiles_Data:
  "f \<in> set (prepareInputMediaForFiles ms) \<Longrightarrow> \<exists>d. Data f = Some d \<and> NeedsUpload d"
  unfolding set_prepareInputMediaForFiles using prepareInputMediaFile_Data by blast

text \<open>
  C7, as stated, fails: \<^verbatim>\<open>PhotoConfig.files\<close> of a photo given by a \<^verbatim>\<open>FileID\<close> returns a
  \<^verbatim>\<open>RequestFile\<close> named \<^verbatim>\<open>"photo"\<close> whose data does not need upload.
\<close>

theorem PhotoConfig_files_without_upload:
  "PhotoConfig_files
     \<lparr>BaseChat.ChatID = 7, BaseChat.ChannelUsername = '''', ProtectContent = False,
      BaseChat.ReplyToMessageID = 0, BaseChat.ReplyMarkup = (None :: unit option),
      BaseChat.DisableNotification = False, AllowSendingWithoutReply = False,
      File = Some (FileID ''AgAD''), Thumb = None, Caption = '''', ParseMode = '''',
      CaptionEntities = ([] :: unit list)\<rparr>
   = [\<lparr>Name = ''photo'', Data = Some (FileID ''AgAD'')\<rparr>]
   \<and> \<not> NeedsUpload (FileID ''AgAD'')"
  by (simp add: PhotoConfig_files_def)

text \<open>
  C7, amended. Every \<^verbatim>\<open>RequestFile\<close> of \<^verbatim>\<open>prepareInputMediaFile\<close> and of
  \<^verbatim>\<open>prepareInputMediaForFiles\<close>, hence of \<^verbatim>\<open>EditMessageMediaConfig.files\<close> and of
  \<^verbatim>\<open>MediaGroupConfig.files\<close>, carries a file reference whose \<^verbatim>\<open>NeedsUpload\<close> is true.
  The files of \<^verbatim>\<open>PhotoConfig.files\<close> and \<^verbatim>\<open>WebhookConfig.files\<close> carry the references
  configured in the descriptor, whatever their \<^verbatim>\<open>NeedsUpload\<close>.
\<close>

theorem request_file_data_of_files:
  "(\<forall>f \<in> set (prepareInputMediaFile item idx). \<exists>d. Data f = Some d \<and> NeedsUpload d)
   \<and> (\<forall>f \<in> set (prepareInputMediaForFiles ms). \<exists>d. Data f = Some d \<and> NeedsUpload d)
   \<and> (\<forall>f \<in> set (EditMessageMediaConfig_files ec). \<exists>d. Data f = Some d \<and> NeedsUpload d)
   \<and> (\<forall>f \<in> set (MediaGroupConfig_files gc). \<exists>d. Data f = Some d \<and> NeedsUpload d)
   \<and> (\<forall>f \<in> set (PhotoConfig_files pc). Data f = File pc \<or> Data f = Thumb pc)
   \<and> (\<forall>f \<in> set (WebhookConfig_files wc). Data f = Certificate wc)"
proof -
  have photo: "\<forall>f \<in> set (PhotoConfig_files pc). Data f = File pc \<or> Data f = Thumb pc"
    by (auto simp: PhotoConfig_files_def split: option.splits)
  have hook: "\<forall>f \<in> set (WebhookConfig_files wc). Data f = Certificate wc"
    by (auto simp: WebhookConfig_files_def split: option.splits)
  show ?thesis
    using photo hook
    by (simp add: EditMessageMediaConfig_files_def MediaGroupConfig_files_def
          prepareInputMediaFile_Data prepareInputMediaForFiles_Data)
qed

theorem request_file_data_of_files_witness:
  "\<lparr>Name = ''file-0'', Data = Some (FileBytes ''v'' [1])\<rparr>
     \<in> set (prepareInputMediaForFiles
         [InputMediaVideo (FileBytes ''v'' [1]) (Some (FileID ''t'')) () :: (unit, unit) InputMedia])
   \<and> (\<exists>d. Data \<lparr>Name = ''file-0'', Data = Some (FileBytes ''v'' [1])\<rparr> = Some d \<and> NeedsUpload d)
   \<and> prepareInputMediaForFiles
       [InputMediaVideo (FileBytes ''v'' [1]) (Some (FileID ''t'')) () :: (unit, unit) InputMedia]
      = [\<lparr>Name = ''file-0'', Data = Some (FileBytes ''v'' [1])\<rparr>]
   \<and> \<lparr>Name = ''certificate'', Data = Some (FileID ''cert'')\<rparr>
     \<in> set (WebhookConfig_files
         \<lparr>URL = None, Certificate = Some (FileID ''cert''), IPAddress = '''', MaxConnections = 0,
          AllowedUpdates = [], DropPendingUpdates = False\<rparr>)
   \<and> Data \<lparr>Name = ''certificate'', Data = Some (FileID ''cert'')\<rparr>
      = Certificate
         \<lparr>URL = None, Certificate = Some (FileID ''cert''), IPAddress = '''', MaxConnections = 0,
          AllowedUpdates = [], DropPendingUpdates = False\<rparr>"
  using request_file_data_of_files
     [of "InputMediaVideo (FileBytes ''v'' [1]) (Some (FileID ''t'')) () :: (unit, unit) InputMedia" 0
      "[InputMediaVideo (FileBytes ''v'' [1]) (Some (FileID ''t'')) () :: (unit, unit) InputMedia]"
      _ _ _
      "\<lparr>URL = None, Certificate = Some (FileID ''cert''), IPAddress = '''', MaxConnections = 0,
          AllowedUpdates = [], DropPendingUpdates = False\<rparr>"]
  by (simp add: prepareInputMediaForFiles_def WebhookConfig_files_def Itoa_0)

subsection \<open>What \<^verbatim>\<open>prepareInputMediaForParams\<close> leaves unchanged\<close>

text \<open>
  C8. \<^verbatim>\<open>prepareInputMediaForParams\<close> returns a sequence of the length of its input;
  the item at each index is the input item of that index with at most its media and
  thumbnail fields replaced (same variant, same metadata), and an item for which no
  upload test succeeds is returned identical to the input.
\<close>

theorem ForParams_changes_only_files:
  "length (prepareInputMediaForParams ms) = length ms
   \<and> (\<forall>i < length ms.
        (\<exists>md th. prepareInputMediaForParams ms ! i = replace_files md th (ms ! i))
      \<and> (\<not> needs_rewrite (ms ! i) \<longrightarrow> prepareInputMediaForParams ms ! i = ms ! i))"
  by (simp add: length_prepareInputMediaForParams nth_prepareInputMediaForParams
        rewritten_replace_files rewritten_identity)

theorem ForParams_changes_only_files_witness:
  "length (prepareInputMediaForParams
      [InputMediaPhoto (FileID ''p'') ''first caption'',
       InputMediaVideo (FilePath ''v.mp4'') (Some (FileURL ''http://t'')) ''second caption'',
       OtherValue (5::nat)])
     = length [InputMediaPhoto (FileID ''p'') ''first caption'',
       InputMediaVideo (FilePath ''v.mp4'') (Some (FileURL ''http://t'')) ''second caption'',
       OtherValue (5::nat)]
   \<and> prepareInputMediaForParams
      [InputMediaPhoto (FileID ''p'') ''first caption'',
       InputMediaVideo (FilePath ''v.mp4'') (Some (FileURL ''http://t'')) ''second caption'',
       OtherValue (5::nat)]
     = [InputMediaPhoto (FileID ''p'') ''first caption'',
        replace_files (fileAttach ''attach://file-1'') (Some (FileURL ''http://t''))
          (InputMediaVideo (FilePath ''v.mp4'') (Some (FileURL ''http://t'')) ''second caption''),
        OtherValue (5::nat)]"
  using ForParams_changes_only_files [of "[InputMediaPhoto (FileID ''p'') ''first caption'',
       InputMediaVideo (FilePath ''v.mp4'') (Some (FileURL ''http://t'')) ''second caption'',
       OtherValue (5::nat)]"]
  by (simp add: prepareInputMediaForParams_def Itoa_0 Itoa_1)

subsection \<open>Editing the media of one message\<close>

text \<open>
  C9. For a media item \<open>m\<close> (one of the four variants), \<^verbatim>\<open>EditMessageMediaConfig\<close>
  computes the media group algorithm on the one-item sequence \<open>[m]\<close>:
  \<^verbatim>\<open>prepareInputMediaParam(m, 0)\<close> is the element of the rewritten sequence, that
  element is the value \<^verbatim>\<open>Params\<close> hands to \<^verbatim>\<open>AddInterface\<close> under the key
  \<^verbatim>\<open>"media"\<close>, and \<^verbatim>\<open>files\<close>, which is \<^verbatim>\<open>prepareInputMediaFile(m, 0)\<close>, is the file list
  of \<open>[m]\<close>.
\<close>

theorem edit_media_is_group_of_one:
  assumes "Media_of (EditMessageMediaConfig.Media config) \<noteq> None"
  shows "(\<exists>param. prepareInputMediaParam (EditMessageMediaConfig.Media config) 0 = Some param
            \<and> prepareInputMediaForParams [EditMessageMediaConfig.Media config] = [param])
       \<and> EditMessageMediaConfig_files config
           = prepareInputMediaForFiles [EditMessageMediaConfig.Media config]
       \<and> prepareInputMediaFile (EditMessageMediaConfig.Media config) 0
           = prepareInputMediaForFiles [EditMessageMediaConfig.Media config]
       \<and> EditMessageMediaConfig_Params marshal_markup marshal_media config
           = (case BaseEdit_Params marshal_markup config of
                (params, Some err) \<Rightarrow> (params, Some err)
              | (params, None) \<Rightarrow>
                  AddInterface marshal_media ''media''
                    (Some (hd (prepareInputMediaForParams [EditMessageMediaConfig.Media config])))
                    params)"
proof -
  obtain param where p: "prepareInputMediaParam (EditMessageMediaConfig.Media config) 0 = Some param"
    using assms by (cases "EditMessageMediaConfig.Media config") auto
  then have q: "prepareInputMediaForParams [EditMessageMediaConfig.Media config] = [param]"
    by (simp add: prepareInputMediaForParams_def)
  have f: "prepareInputMediaFile (EditMessageMediaConfig.Media config) 0
           = prepareInputMediaForFiles [EditMessageMediaConfig.Media config]"
    by (simp add: prepareInputMediaForFiles_def)
  have g: "EditMessageMediaConfig_Params marshal_markup marshal_media config
           = (case BaseEdit_Params marshal_markup config of
                (params, Some err) \<Rightarrow> (params, Some err)
              | (params, None) \<Rightarrow>
                  AddInterface marshal_media ''media''
                    (Some (hd (prepareInputMediaForParams [EditMessageMediaConfig.Media config])))
                    params)"
    unfolding EditMessageMediaConfig_Params_def p q list.sel by (rule refl)
  show ?thesis
    using p q f g by (simp add: EditMessageMediaConfig_files_def)
qed

theorem edit_media_is_group_of_one_witness:
  "Media_of (EditMessageMediaConfig.Media
      \<lparr>BaseEdit.ChatID = 42, BaseEdit.ChannelUsername = '''', BaseEdit.MessageID = 9,
       BaseEdit.InlineMessageID = '''', BaseEdit.ReplyMarkup = (None :: unit option),
       EditMessageMediaConfig.Media =
         (InputMediaPhoto (FilePath ''a.jpg'') () :: (unit, unit) InputMedia)\<rparr>) \<noteq> None
   \<and> EditMessageMediaConfig_files
      \<lparr>BaseEdit.ChatID = 42, BaseEdit.ChannelUsername = '''', BaseEdit.MessageID = 9,
       BaseEdit.InlineMessageID = '''', BaseEdit.ReplyMarkup = (None :: unit option),
       EditMessageMediaConfig.Media =
         (InputMediaPhoto (FilePath ''a.jpg'') () :: (unit, unit) InputMedia)\<rparr>
     = prepareInputMediaForFiles [InputMediaPhoto (FilePath ''a.jpg'') () :: (unit, unit) InputMedia]
   \<and> prepareInputMediaForFiles [InputMediaPhoto (FilePath ''a.jpg'') () :: (unit, unit) InputMedia]
     = [\<lparr>Name = ''file-0'', Data = Some (FilePath ''a.jpg'')\<rparr>]
   \<and> prepareInputMediaParam (InputMediaPhoto (FilePath ''a.jpg'') () :: (unit, unit) InputMedia) 0
     = Some (InputMediaPhoto (fileAttach ''attach://file-0'') ())
   \<and> prepareInputMediaForParams [InputMediaPhoto (FilePath ''a.jpg'') () :: (unit, unit) InputMedia]
     = [InputMediaPhoto (fileAttach ''attach://file-0'') ()]"
  using edit_media_is_group_of_one [of "\<lparr>BaseEdit.ChatID = 42, BaseEdit.ChannelUsername = '''', BaseEdit.MessageID = 9,
       BaseEdit.InlineMessageID = '''', BaseEdit.ReplyMarkup = (None :: unit option),
       EditMessageMediaConfig.Media =
         (InputMediaPhoto (FilePath ''a.jpg'') () :: (unit, unit) InputMedia)\<rparr>"]
  by (simp add: prepareInputMediaForFiles_def prepareInputMediaForParams_def Itoa_0)

subsection \<open>The score key of \<^verbatim>\<open>SetGameScoreConfig\<close>\<close>

lemma AddFirstValid_other_key:
  "k \<noteq> key \<Longrightarrow> fst (AddFirstValid key args p) k = p k"
  by (induction key args p rule: AddFirstValid.induct) auto

lemma Itoa_5: "Itoa 5 = ''5''" by code_simp


text \<open>
  C10. \<^verbatim>\<open>SetGameScoreConfig.Params\<close> maps the key \<^verbatim>\<open>"scrore"\<close> to the decimal string of
  a nonzero \<^verbatim>\<open>Score\<close>, leaves that key out for a zero \<^verbatim>\<open>Score\<close>, never writes the key
  \<^verbatim>\<open>"score"\<close>, and returns a nil error.
\<close>

theorem SetGameScore_scrore_key:
  "(Score config \<noteq> 0 \<longrightarrow>
      fst (SetGameScoreConfig_Params config) ''scrore'' = Some (Itoa (Score config)))
   \<and> (Score config = 0 \<longrightarrow> fst (SetGameScoreConfig_Params config) ''scrore'' = None)
   \<and> fst (SetGameScoreConfig_Params config) ''score'' = None
   \<and> snd (SetGameScoreConfig_Params config) = None"
  by (simp add: SetGameScoreConfig_Params_def Let_def AddNonZero_def AddNonZero64_def
        AddBool_def AddFirstValid_other_key)

theorem SetGameScore_scrore_key_witness:
  "Score \<lparr>UserID = 11, Score = 5, Force = False, DisableEditMessage = False, ChatID = 3,
          ChannelUsername = '''', MessageID = 8, InlineMessageID = ''''\<rparr> \<noteq> 0
   \<and> fst (SetGameScoreConfig_Params
        \<lparr>UserID = 11, Score = 5, Force = False, DisableEditMessage = False, ChatID = 3,
          ChannelUsername = '''', MessageID = 8, InlineMessageID = ''''\<rparr>) ''scrore'' = Some ''5''
   \<and> fst (SetGameScoreConfig_Params
        \<lparr>UserID = 11, Score = 5, Force = False, DisableEditMessage = False, ChatID = 3,
          ChannelUsername = '''', MessageID = 8, InlineMessageID = ''''\<rparr>) ''score'' = None
   \<and> Score \<lparr>UserID = 11, Score = 0, Force = False, DisableEditMessage = False, ChatID = 3,
          ChannelUsername = '''', MessageID = 8, InlineMessageID = ''''\<rparr> = 0
   \<and> fst (SetGameScoreConfig_Params
        \<lparr>UserID = 11, Score = 0, Force = False, DisableEditMessage = False, ChatID = 3,
          ChannelUsername = '''', MessageID = 8, InlineMessageID = ''''\<rparr>) ''scrore'' = None"
  using SetGameScore_scrore_key [of "\<lparr>UserID = 11, Score = 5, Force = False, DisableEditMessage = False, ChatID = 3,
          ChannelUsername = '''', MessageID = 8, InlineMessageID = ''''\<rparr>"]
        SetGameScore_scrore_key [of "\<lparr>UserID = 11, Score = 0, Force = False, DisableEditMessage = False, ChatID = 3,
          ChannelUsername = '''', MessageID = 8, InlineMessageID = ''''\<rparr>"]
  by (simp add: Itoa_5)

end
